theory Spec2Isabelle
  imports Complex_Main
begin

section \<open>Numbers\<close>

text \<open>
  A JavaScript number is an IEEE double: a finite value, which is a real number, negative
  zero, an infinity or NaN.  \<open>Finite x\<close> stands for the double whose value is exactly \<open>x\<close>.
  Comparison of doubles is exact and is defined here: NaN compares false with everything,
  and negative zero compares as zero.
\<close>

datatype js_number = Finite real | NegZero | PosInfinity | NegInfinity | NaN

definition js_key :: "js_number \<Rightarrow> (int \<times> real) option" where
  "js_key a =
     (case a of
        Finite x \<Rightarrow> Some (0, x)
      | NegZero \<Rightarrow> Some (0, 0)
      | PosInfinity \<Rightarrow> Some (1, 0)
      | NegInfinity \<Rightarrow> Some (- 1, 0)
      | NaN \<Rightarrow> None)"

definition js_lt :: "js_number \<Rightarrow> js_number \<Rightarrow> bool" where
  "js_lt a b =
     (case js_key a of
        None \<Rightarrow> False
      | Some (i, x) \<Rightarrow>
          (case js_key b of
             None \<Rightarrow> False
           | Some (j, y) \<Rightarrow> i < j \<or> (i = j \<and> x < y)))"

definition js_gt :: "js_number \<Rightarrow> js_number \<Rightarrow> bool" where
  "js_gt a b = js_lt b a"

definition js_ge :: "js_number \<Rightarrow> js_number \<Rightarrow> bool" where
  "js_ge a b =
     (case js_key a of
        None \<Rightarrow> False
      | Some (i, x) \<Rightarrow>
          (case js_key b of
             None \<Rightarrow> False
           | Some (j, y) \<Rightarrow> j < i \<or> (i = j \<and> y \<le> x)))"

text \<open>
  Arithmetic on doubles rounds, and it is not defined here: the subtraction,
  multiplication and division of the JavaScript engine and its
  \<^verbatim>\<open>Number.prototype.toFixed(0)\<close> are parameters of the model, so every statement below
  holds for whatever these operations return, in particular for what IEEE arithmetic
  returns.  Values that the source obtains from \<^verbatim>\<open>Date.now()\<close> or by counting are
  integers; request hints are finite numbers and are modelled as reals.
\<close>

record js_arith =
  js_minus :: "js_number \<Rightarrow> js_number \<Rightarrow> js_number"
  js_times :: "js_number \<Rightarrow> js_number \<Rightarrow> js_number"
  js_divide :: "js_number \<Rightarrow> js_number \<Rightarrow> js_number"
  toFixed0 :: "js_number \<Rightarrow> string"

text \<open>The double that a clock value is.\<close>

definition of_clock :: "int \<Rightarrow> js_number" where
  "of_clock n = Finite (real_of_int n)"

section \<open>Backend health client (ollama-client.ts)\<close>

record model_details =
  parent_model :: "string option"
  format :: "string option"
  family_d :: "string option"
  families :: "string list option"
  parameter_size :: "string option"
  quantization_level :: "string option"

record OllamaModel =
  name_p :: string
  model_p :: string
  modified_at :: string
  size_p :: int
  digest_p :: string
  details_p :: "model_details option"

record OllamaRunningModel =
  name_r :: string
  model_r :: string
  size_r :: int
  digest_r :: string
  expires_at :: string
  size_vram :: "int option"
  details_r :: "model_details option"

text \<open>\<^verbatim>\<open>expiresAt\<close> holds the backend's \<^verbatim>\<open>expires_at\<close> text; the conversion to a
  \<^verbatim>\<open>Date\<close> object is not modelled.\<close>

record ModelStatus =
  name :: string
  pulled :: bool
  loaded :: bool
  sizeBytes :: int
  vramBytes :: int
  expiresAt :: "string option"
  parameterSize :: "string option"
  quantization :: "string option"
  family :: "string option"

record OllamaHealth =
  reachable :: bool
  version :: "string option"
  pulledModels :: "OllamaModel list"
  runningModels :: "OllamaRunningModel list"
  lastChecked :: int

text \<open>The ways one \<^verbatim>\<open>fetchJson\<close> call throws: rejected \<^verbatim>\<open>fetch\<close>, a response that is
  not \<^verbatim>\<open>ok\<close>, the 10 second abort, a body that is not JSON.\<close>

datatype fetch_error = NetworkError | HttpError nat | Timeout | InvalidJson

text \<open>The parsed body of a response, as far as \<^verbatim>\<open>checkHealth\<close> reads it: the JSON value
  \<^verbatim>\<open>null\<close>, or any other value, given by the one field that is read from it, absent when
  the value has no such field.\<close>

datatype 'a body = Null | Body "'a option"

text \<open>What the backend answers to the three requests of one \<^verbatim>\<open>checkHealth\<close>, and the clock
  value that \<^verbatim>\<open>Date.now()\<close> returns when the new snapshot is built.\<close>

record backend =
  versionResp :: "fetch_error + string body"
  tagsResp :: "fetch_error + OllamaModel list body"
  psResp :: "fetch_error + OllamaRunningModel list body"
  clockChecked :: int

text \<open>What leaves the \<^verbatim>\<open>try\<close> block of \<^verbatim>\<open>checkHealth\<close>: a failed call, or the
  \<^verbatim>\<open>TypeError\<close> of reading a field of \<^verbatim>\<open>null\<close>.\<close>

datatype failure = Fetch fetch_error | TypeError

text \<open>The \<^verbatim>\<open>try\<close> block of \<^verbatim>\<open>checkHealth\<close>: the three calls in order, the first failure
  leaving the block, and then the new snapshot, whose fields are read from the three
  bodies in order.\<close>

definition checkHealth_try :: "backend \<Rightarrow> failure + OllamaHealth" where
  "checkHealth_try b =
     (case versionResp b of
        Inl e \<Rightarrow> Inl (Fetch e)
      | Inr versionData \<Rightarrow>
          (case tagsResp b of
             Inl e \<Rightarrow> Inl (Fetch e)
           | Inr tagsData \<Rightarrow>
               (case psResp b of
                  Inl e \<Rightarrow> Inl (Fetch e)
                | Inr psData \<Rightarrow>
                    (case versionData of
                       Null \<Rightarrow> Inl TypeError
                     | Body version_field \<Rightarrow>
                         (case tagsData of
                            Null \<Rightarrow> Inl TypeError
                          | Body tags_models \<Rightarrow>
                              (case psData of
                                 Null \<Rightarrow> Inl TypeError
                               | Body ps_models \<Rightarrow>
                                   Inr \<lparr> reachable = True,
                                         version = version_field,
                                         pulledModels =
                                           (case tags_models of None \<Rightarrow> [] | Some ms \<Rightarrow> ms),
                                         runningModels =
                                           (case ps_models of None \<Rightarrow> [] | Some ms \<Rightarrow> ms),
                                         lastChecked = clockChecked b \<rparr>))))))"

text \<open>\<^verbatim>\<open>checkHealth\<close> with its \<^verbatim>\<open>catch\<close>: the argument is the cached snapshot
  \<^verbatim>\<open>_health\<close>, the result is the snapshot that is both stored and returned.\<close>

definition checkHealth :: "OllamaHealth \<Rightarrow> backend \<Rightarrow> OllamaHealth" where
  "checkHealth h b =
     (case checkHealth_try b of
        Inr h' \<Rightarrow> h'
      | Inl e \<Rightarrow>
          \<lparr> reachable = False,
            version = None,
            pulledModels = pulledModels h,
            runningModels = [],
            lastChecked = clockChecked b \<rparr>)"

definition isModelPulled :: "OllamaHealth \<Rightarrow> string \<Rightarrow> bool" where
  "isModelPulled h modelName =
     list_ex (\<lambda>m. name_p m = modelName \<or> model_p m = modelName) (pulledModels h)"

definition isModelLoaded :: "OllamaHealth \<Rightarrow> string \<Rightarrow> bool" where
  "isModelLoaded h modelName =
     list_ex (\<lambda>m. name_r m = modelName \<or> model_r m = modelName) (runningModels h)"

definition status_details :: "OllamaModel option \<Rightarrow> OllamaRunningModel option \<Rightarrow> model_details option" where
  "status_details p r =
     (case (case p of None \<Rightarrow> None | Some m \<Rightarrow> details_p m) of
        Some d \<Rightarrow> Some d
      | None \<Rightarrow> (case r of None \<Rightarrow> None | Some m \<Rightarrow> details_r m))"

definition getModelStatus :: "OllamaHealth \<Rightarrow> string \<Rightarrow> ModelStatus" where
  "getModelStatus h modelName =
     (let p = find (\<lambda>m. name_p m = modelName \<or> model_p m = modelName) (pulledModels h);
          r = find (\<lambda>m. name_r m = modelName \<or> model_r m = modelName) (runningModels h);
          d = status_details p r
      in \<lparr> name = modelName,
           pulled = (p \<noteq> None),
           loaded = (r \<noteq> None),
           sizeBytes = (case p of Some m \<Rightarrow> size_p m
                        | None \<Rightarrow> (case r of Some m \<Rightarrow> size_r m | None \<Rightarrow> 0)),
           vramBytes = (case r of None \<Rightarrow> 0
                        | Some m \<Rightarrow> (case size_vram m of None \<Rightarrow> 0 | Some v \<Rightarrow> v)),
           expiresAt = (case r of None \<Rightarrow> None
                        | Some m \<Rightarrow> if expires_at m = [] then None else Some (expires_at m)),
           parameterSize = (case d of None \<Rightarrow> None | Some x \<Rightarrow> parameter_size x),
           quantization = (case d of None \<Rightarrow> None | Some x \<Rightarrow> quantization_level x),
           family = (case d of None \<Rightarrow> None | Some x \<Rightarrow> family_d x) \<rparr>)"

section \<open>Configuration (config.ts)\<close>

record PluginConfig =
  ollamaHost :: string
  primaryModel :: string
  sidecarModel :: string
  fallbackModel :: "string option"
  keepAliveMinutes :: js_number
  gpuMemoryThreshold :: js_number
  healthCheckIntervalSec :: js_number
  preloadOnStart :: bool
  autoRoute :: bool
  dashboardEnabled :: bool

text \<open>The defaults.  The literal \<^verbatim>\<open>0.85\<close> denotes the double nearest to it, which is
  7656119366529843 / 9007199254740992.\<close>

definition DEFAULTS :: PluginConfig where
  "DEFAULTS =
     \<lparr> ollamaHost = ''http://localhost:11434'',
       primaryModel = ''deepseek-coder-v2:16b'',
       sidecarModel = ''qwen2.5-coder:7b'',
       fallbackModel = None,
       keepAliveMinutes = Finite 30,
       gpuMemoryThreshold = Finite (7656119366529843 / 9007199254740992),
       healthCheckIntervalSec = Finite 30,
       preloadOnStart = True,
       autoRoute = True,
       dashboardEnabled = True \<rparr>"

section \<open>Routing engine (router.ts)\<close>

datatype source = Primary | Sidecar | Fallback

record RouteDecision =
  model :: string
  reason :: string
  source :: source
  gpuUtilization_d :: "js_number option"
  vramUsedMB :: "js_number option"
  vramTotalMB :: "js_number option"
  modelLoaded :: bool
  timestamp :: int

record vram =
  usedMB :: js_number
  totalMB :: js_number

record RouterState =
  lastDecision :: "RouteDecision option"
  primaryStatus :: ModelStatus
  sidecarStatus :: ModelStatus
  gpuUtilization :: "js_number option"
  vramUsage :: "vram option"
  ollamaReachable :: bool
  lastHealthCheck :: int
  decisionsCount :: nat
  primarySelections :: nat
  sidecarSelections :: nat
  fallbackSelections :: nat

text \<open>The calls that the engine makes are logged, so that a statement can say which of
  them a public operation performed.\<close>

datatype call = RefreshHealth | CheckHealth

text \<open>A \<^verbatim>\<open>ModelRouter\<close> with the client it owns: the client's cached snapshot, the router
  state and the log of calls.  The configuration is read-only and passed separately.\<close>

record engine =
  health :: OllamaHealth
  state :: RouterState
  calls :: "call list"

text \<open>The client's initial snapshot and the state that the constructor builds.\<close>

definition new_health :: OllamaHealth where
  "new_health =
     \<lparr> reachable = False, version = None, pulledModels = [], runningModels = [],
       lastChecked = 0 \<rparr>"

definition new_status :: "string \<Rightarrow> ModelStatus" where
  "new_status n =
     \<lparr> name = n, pulled = False, loaded = False, sizeBytes = 0, vramBytes = 0,
       expiresAt = None, parameterSize = None, quantization = None, family = None \<rparr>"

definition new_state :: "PluginConfig \<Rightarrow> RouterState" where
  "new_state cfg =
     \<lparr> lastDecision = None,
       primaryStatus = new_status (primaryModel cfg),
       sidecarStatus = new_status (sidecarModel cfg),
       gpuUtilization = None,
       vramUsage = None,
       ollamaReachable = False,
       lastHealthCheck = 0,
       decisionsCount = 0,
       primarySelections = 0,
       sidecarSelections = 0,
       fallbackSelections = 0 \<rparr>"

definition new_engine :: "PluginConfig \<Rightarrow> OllamaHealth \<Rightarrow> engine" where
  "new_engine cfg h = \<lparr> health = h, state = new_state cfg, calls = [] \<rparr>"

text \<open>What one \<^verbatim>\<open>refreshHealth\<close> observes outside the process: the backend's answers, the
  clock, and the results of the two nvidia-smi probes of gpu-detect.ts.\<close>

record probe =
  backendResp :: backend
  clockRefreshed :: int
  nvidiaUtilization :: "js_number option"
  nvidiaVram :: "vram option"

definition refreshHealth :: "PluginConfig \<Rightarrow> engine \<Rightarrow> probe \<Rightarrow> engine" where
  "refreshHealth cfg e w =
     (let h = checkHealth (health e) (backendResp w)
      in \<lparr> health = h,
           state = (state e)
             \<lparr> ollamaReachable := reachable h,
               lastHealthCheck := clockRefreshed w,
               primaryStatus := getModelStatus h (primaryModel cfg),
               sidecarStatus := getModelStatus h (sidecarModel cfg),
               gpuUtilization := nvidiaUtilization w,
               vramUsage := nvidiaVram w \<rparr>,
           calls = calls e @ [RefreshHealth, CheckHealth] \<rparr>)"

definition isGpuOverloaded :: "js_arith \<Rightarrow> PluginConfig \<Rightarrow> RouterState \<Rightarrow> bool" where
  "isGpuOverloaded ar cfg st =
     (case vramUsage st of
        None \<Rightarrow> False
      | Some v \<Rightarrow>
          (let ratio = js_divide ar (usedMB v) (totalMB v)
           in js_ge ratio (gpuMemoryThreshold cfg)))"

record hints =
  messageLength :: "real option"
  conversationDepth :: "real option"
  forceModel :: "string option"

definition isSimpleRequest :: "hints option \<Rightarrow> bool" where
  "isSimpleRequest context =
     (case context of
        None \<Rightarrow> False
      | Some c \<Rightarrow>
          (let shortMessage = (case messageLength c of None \<Rightarrow> 0 | Some n \<Rightarrow> n) < 200;
               shallowConversation = (case conversationDepth c of None \<Rightarrow> 0 | Some n \<Rightarrow> n) < 3
           in shortMessage \<and> shallowConversation))"

definition decidePrimary :: "PluginConfig \<Rightarrow> engine \<Rightarrow> string \<Rightarrow> int \<Rightarrow> RouteDecision \<times> engine" where
  "decidePrimary cfg e why now =
     (let st = (state e)\<lparr> decisionsCount := decisionsCount (state e) + 1,
                          primarySelections := primarySelections (state e) + 1 \<rparr>;
          decision =
            \<lparr> model = ''ollama/'' @ primaryModel cfg,
              reason = why,
              source = Primary,
              gpuUtilization_d = gpuUtilization st,
              vramUsedMB = map_option usedMB (vramUsage st),
              vramTotalMB = map_option totalMB (vramUsage st),
              modelLoaded = loaded (primaryStatus st),
              timestamp = now \<rparr>
      in (decision, e\<lparr> state := st\<lparr> lastDecision := Some decision \<rparr> \<rparr>))"

definition decideSidecar :: "PluginConfig \<Rightarrow> engine \<Rightarrow> string \<Rightarrow> int \<Rightarrow> RouteDecision \<times> engine" where
  "decideSidecar cfg e why now =
     (let st = (state e)\<lparr> decisionsCount := decisionsCount (state e) + 1,
                          sidecarSelections := sidecarSelections (state e) + 1 \<rparr>;
          decision =
            \<lparr> model = ''ollama/'' @ sidecarModel cfg,
              reason = why,
              source = Sidecar,
              gpuUtilization_d = gpuUtilization st,
              vramUsedMB = map_option usedMB (vramUsage st),
              vramTotalMB = map_option totalMB (vramUsage st),
              modelLoaded = loaded (sidecarStatus st),
              timestamp = now \<rparr>
      in (decision, e\<lparr> state := st\<lparr> lastDecision := Some decision \<rparr> \<rparr>))"

definition decideFallback :: "PluginConfig \<Rightarrow> engine \<Rightarrow> string \<Rightarrow> int \<Rightarrow> RouteDecision \<times> engine" where
  "decideFallback cfg e why now =
     (let st = (state e)\<lparr> decisionsCount := decisionsCount (state e) + 1,
                          fallbackSelections := fallbackSelections (state e) + 1 \<rparr>;
          decision =
            \<lparr> model = (case fallbackModel cfg of
                         None \<Rightarrow> ''anthropic/claude-sonnet-4-5''
                       | Some m \<Rightarrow> m),
              reason = why,
              source = Fallback,
              gpuUtilization_d = gpuUtilization st,
              vramUsedMB = None,
              vramTotalMB = None,
              modelLoaded = False,
              timestamp = now \<rparr>
      in (decision, e\<lparr> state := st\<lparr> lastDecision := Some decision \<rparr> \<rparr>))"

text \<open>The test \<^verbatim>\<open>if (context?.forceModel)\<close>: it succeeds when a context is given, carries
  a \<^verbatim>\<open>forceModel\<close>, and that string is not empty (the empty string is falsy).\<close>

definition forced :: "hints option \<Rightarrow> string option" where
  "forced context =
     (case context of
        None \<Rightarrow> None
      | Some c \<Rightarrow>
          (case forceModel c of
             None \<Rightarrow> None
           | Some m \<Rightarrow> if m = [] then None else Some m))"

text \<open>What one \<^verbatim>\<open>selectModel\<close> call observes outside the process: the clock read by the
  staleness test, what a refresh would observe, and the clock read when the decision is
  stamped.\<close>

record world =
  clockStale :: int
  observed :: probe
  clockStamp :: int

text \<open>The condition of the staleness test of \<^verbatim>\<open>selectModel\<close>:
  \<^verbatim>\<open>Date.now() - this.state.lastHealthCheck > this.config.healthCheckIntervalSec * 1000 * 2\<close>.\<close>

definition stale :: "js_arith \<Rightarrow> PluginConfig \<Rightarrow> engine \<Rightarrow> world \<Rightarrow> bool" where
  "stale ar cfg e w =
     js_gt (js_minus ar (of_clock (clockStale w)) (of_clock (lastHealthCheck (state e))))
           (js_times ar (js_times ar (healthCheckIntervalSec cfg) (Finite 1000)) (Finite 2))"

text \<open>\<^verbatim>\<open>selectModel\<close>.  The first argument is the arithmetic of the JavaScript engine.\<close>

definition selectModel ::
  "js_arith \<Rightarrow> PluginConfig \<Rightarrow> engine \<Rightarrow> hints option \<Rightarrow> world \<Rightarrow> RouteDecision \<times> engine" where
  "selectModel ar cfg e context w =
     (case forced context of
        Some fm \<Rightarrow>
          (let decision =
                 \<lparr> model = fm,
                   reason = ''Forced model selection'',
                   source = Primary,
                   gpuUtilization_d = None,
                   vramUsedMB = None,
                   vramTotalMB = None,
                   modelLoaded = isModelLoaded (health e) fm,
                   timestamp = clockStamp w \<rparr>
           in (decision, e\<lparr> state := (state e)\<lparr> lastDecision := Some decision \<rparr> \<rparr>))
      | None \<Rightarrow>
          (let e1 = (if stale ar cfg e w then refreshHealth cfg e (observed w) else e)
           in if \<not> ollamaReachable (state e1)
              then decideFallback cfg e1 ''Ollama is unreachable'' (clockStamp w)
              else
                (let primaryPulled = pulled (primaryStatus (state e1));
                     sidecarPulled = pulled (sidecarStatus (state e1));
                     primaryLoaded = loaded (primaryStatus (state e1));
                     sidecarLoaded = loaded (sidecarStatus (state e1));
                     gpuOverloaded = isGpuOverloaded ar cfg (state e1);
                     isSimple = isSimpleRequest context
                 in if primaryPulled \<and> primaryLoaded \<and> \<not> gpuOverloaded
                    then decidePrimary cfg e1 ''Primary model loaded and GPU has capacity''
                           (clockStamp w)
                    else if primaryPulled \<and> \<not> gpuOverloaded \<and> \<not> isSimple
                    then decidePrimary cfg e1
                           ''Primary model available, loading for complex request'' (clockStamp w)
                    else if sidecarPulled \<and> (gpuOverloaded \<or> isSimple)
                    then decideSidecar cfg e1
                           (if gpuOverloaded
                            then ''GPU VRAM above ''
                                   @ toFixed0 ar (js_times ar (gpuMemoryThreshold cfg) (Finite 100))
                                   @ ''% - routing to CPU sidecar''
                            else ''Simple request routed to fast CPU sidecar'')
                           (clockStamp w)
                    else if sidecarPulled \<and> sidecarLoaded
                    then decideSidecar cfg e1 ''Sidecar already loaded - fast response path''
                           (clockStamp w)
                    else if primaryPulled
                    then decidePrimary cfg e1
                           ''Primary model available with partial GPU offload'' (clockStamp w)
                    else if sidecarPulled
                    then decideSidecar cfg e1 ''Only sidecar model available'' (clockStamp w)
                    else decideFallback cfg e1 ''No local models available'' (clockStamp w))))"

section \<open>Sequences of public operations\<close>

text \<open>The two operations that callers invoke on a running engine, each with what it
  observes outside the process, and the engine after a sequence of them.\<close>

datatype op = Select "hints option" world | Refresh probe

fun step :: "js_arith \<Rightarrow> PluginConfig \<Rightarrow> engine \<Rightarrow> op \<Rightarrow> engine" where
  "step ar cfg e (Select context w) = snd (selectModel ar cfg e context w)"
| "step ar cfg e (Refresh p) = refreshHealth cfg e p"

definition run :: "js_arith \<Rightarrow> PluginConfig \<Rightarrow> engine \<Rightarrow> op list \<Rightarrow> engine" where
  "run ar cfg e ops = foldl (step ar cfg) e ops"

text \<open>The equation between the four counters, and the comparison of the counters of two
  states.\<close>

definition counters_sum :: "RouterState \<Rightarrow> bool" where
  "counters_sum st =
     (decisionsCount st = primarySelections st + sidecarSelections st + fallbackSelections st)"

definition counters_le :: "RouterState \<Rightarrow> RouterState \<Rightarrow> bool" where
  "counters_le st st' =
     (decisionsCount st \<le> decisionsCount st' \<and>
      primarySelections st \<le> primarySelections st' \<and>
      sidecarSelections st \<le> sidecarSelections st' \<and>
      fallbackSelections st \<le> fallbackSelections st')"

section \<open>The policy table of the specification\<close>

text \<open>The seven branches of step 6 of the decision algorithm as the specification lists
  them: each with its condition, in the order a to g, and the source it selects.  The
  reasons are the texts of the source; branch c has one for each of its two triggers.\<close>

datatype branch = B6a | B6b | B6c | B6d | B6e | B6f | B6g

definition branches :: "branch list" where
  "branches = [B6a, B6b, B6c, B6d, B6e, B6f, B6g]"

fun branch_cond :: "js_arith \<Rightarrow> PluginConfig \<Rightarrow> RouterState \<Rightarrow> hints option \<Rightarrow> branch \<Rightarrow> bool" where
  "branch_cond ar cfg st context B6a =
     (pulled (primaryStatus st) \<and> loaded (primaryStatus st) \<and> \<not> isGpuOverloaded ar cfg st)"
| "branch_cond ar cfg st context B6b =
     (pulled (primaryStatus st) \<and> \<not> isGpuOverloaded ar cfg st \<and> \<not> isSimpleRequest context)"
| "branch_cond ar cfg st context B6c =
     (pulled (sidecarStatus st) \<and> (isGpuOverloaded ar cfg st \<or> isSimpleRequest context))"
| "branch_cond ar cfg st context B6d = (pulled (sidecarStatus st) \<and> loaded (sidecarStatus st))"
| "branch_cond ar cfg st context B6e = pulled (primaryStatus st)"
| "branch_cond ar cfg st context B6f = pulled (sidecarStatus st)"
| "branch_cond ar cfg st context B6g = True"

fun branch_source :: "branch \<Rightarrow> source" where
  "branch_source B6a = Primary"
| "branch_source B6b = Primary"
| "branch_source B6c = Sidecar"
| "branch_source B6d = Sidecar"
| "branch_source B6e = Primary"
| "branch_source B6f = Sidecar"
| "branch_source B6g = Fallback"

fun branch_reason :: "js_arith \<Rightarrow> PluginConfig \<Rightarrow> RouterState \<Rightarrow> branch \<Rightarrow> string" where
  "branch_reason ar cfg st B6a = ''Primary model loaded and GPU has capacity''"
| "branch_reason ar cfg st B6b = ''Primary model available, loading for complex request''"
| "branch_reason ar cfg st B6c =
     (if isGpuOverloaded ar cfg st
      then ''GPU VRAM above '' @ toFixed0 ar (js_times ar (gpuMemoryThreshold cfg) (Finite 100))
             @ ''% - routing to CPU sidecar''
      else ''Simple request routed to fast CPU sidecar'')"
| "branch_reason ar cfg st B6d = ''Sidecar already loaded - fast response path''"
| "branch_reason ar cfg st B6e = ''Primary model available with partial GPU offload''"
| "branch_reason ar cfg st B6f = ''Only sidecar model available''"
| "branch_reason ar cfg st B6g = ''No local models available''"

text \<open>A branch fires when its condition holds and the condition of no branch listed
  before it does.\<close>

definition fires :: "js_arith \<Rightarrow> PluginConfig \<Rightarrow> RouterState \<Rightarrow> hints option \<Rightarrow> branch \<Rightarrow> bool" where
  "fires ar cfg st context b =
     (branch_cond ar cfg st context b \<and>
      list_all (\<lambda>b'. \<not> branch_cond ar cfg st context b') (takeWhile (\<lambda>b'. b' \<noteq> b) branches))"

section \<open>A sample deployment\<close>

text \<open>Concrete inputs on which the statements below are evaluated: the default
  configuration, a backend that has both configured models pulled and the primary one
  loaded, a backend that times out, a GPU at half and at nine tenths of its memory, and an
  arithmetic.  The arithmetic is exact on finite operands with a divisor that is not zero
  (other operands do not occur in the sample, and it gives NaN there), and it renders
  every percentage as that of the default threshold.  It is the arithmetic of doubles at
  the operands of the sample: 30 * 1000 * 2, differences of the sample's clock values,
  4096 / 8192 and 7372 / 8192 have exact results that are doubles.\<close>

definition exact_op :: "(real \<Rightarrow> real \<Rightarrow> real) \<Rightarrow> js_number \<Rightarrow> js_number \<Rightarrow> js_number" where
  "exact_op f a b =
     (case a of
        Finite x \<Rightarrow> (case b of Finite y \<Rightarrow> Finite (f x y) | _ \<Rightarrow> NaN)
      | _ \<Rightarrow> NaN)"

definition sample_arith :: js_arith where
  "sample_arith =
     \<lparr> js_minus = exact_op (\<lambda>x y. x - y),
       js_times = exact_op (\<lambda>x y. x * y),
       js_divide = (\<lambda>a b. if b = Finite 0 then NaN else exact_op (\<lambda>x y. x / y) a b),
       toFixed0 = (\<lambda>x. ''85'') \<rparr>"

definition primary_pulled :: OllamaModel where
  "primary_pulled =
     \<lparr> name_p = ''deepseek-coder-v2:16b'', model_p = ''deepseek-coder-v2:16b'',
       modified_at = ''2025-01-01T00:00:00Z'', size_p = 8905126121, digest_p = ''63fb193b3a9b'',
       details_p = None \<rparr>"

definition sidecar_pulled :: OllamaModel where
  "sidecar_pulled =
     \<lparr> name_p = ''qwen2.5-coder:7b'', model_p = ''qwen2.5-coder:7b'',
       modified_at = ''2025-01-02T00:00:00Z'', size_p = 4683087332, digest_p = ''2b0496514337'',
       details_p = None \<rparr>"

definition primary_running :: OllamaRunningModel where
  "primary_running =
     \<lparr> name_r = ''deepseek-coder-v2:16b'', model_r = ''deepseek-coder-v2:16b'',
       size_r = 8905126121, digest_r = ''63fb193b3a9b'',
       expires_at = ''2025-01-03T00:30:00Z'', size_vram = Some 4294967296,
       details_r = None \<rparr>"

definition backend_up :: backend where
  "backend_up =
     \<lparr> versionResp = Inr (Body (Some ''0.5.1'')),
       tagsResp = Inr (Body (Some [primary_pulled, sidecar_pulled])),
       psResp = Inr (Body (Some [primary_running])),
       clockChecked = 1735862400000 \<rparr>"

definition backend_down :: backend where
  "backend_down =
     \<lparr> versionResp = Inl Timeout, tagsResp = Inl Timeout, psResp = Inl Timeout,
       clockChecked = 1735862400000 \<rparr>"

definition probe_up :: probe where
  "probe_up =
     \<lparr> backendResp = backend_up, clockRefreshed = 1735862400001,
       nvidiaUtilization = Some (Finite 40),
       nvidiaVram = Some \<lparr> usedMB = Finite 4096, totalMB = Finite 8192 \<rparr> \<rparr>"

definition probe_down :: probe where
  "probe_down =
     \<lparr> backendResp = backend_down, clockRefreshed = 1735862400001,
       nvidiaUtilization = Some (Finite 97),
       nvidiaVram = Some \<lparr> usedMB = Finite 7372, totalMB = Finite 8192 \<rparr> \<rparr>"

definition world_up :: world where
  "world_up = \<lparr> clockStale = 1735862400000, observed = probe_up, clockStamp = 1735862400002 \<rparr>"

definition world_down :: world where
  "world_down = \<lparr> clockStale = 1735862400000, observed = probe_down, clockStamp = 1735862400002 \<rparr>"

definition complex_hints :: hints where
  "complex_hints = \<lparr> messageLength = Some 500, conversationDepth = Some 5, forceModel = None \<rparr>"

definition no_hints :: hints where
  "no_hints = \<lparr> messageLength = None, conversationDepth = None, forceModel = None \<rparr>"

definition fresh_engine :: engine where
  "fresh_engine = new_engine DEFAULTS new_health"

text \<open>The engine once it has refreshed against the running backend.\<close>

definition warm_engine :: engine where
  "warm_engine = refreshHealth DEFAULTS fresh_engine probe_up"

text \<open>The engine once it has refreshed against a backend that has both models pulled and
  none loaded.\<close>

definition cold_engine :: engine where
  "cold_engine = refreshHealth DEFAULTS fresh_engine
     (probe_up\<lparr> backendResp := backend_up\<lparr> psResp := Inr (Body (Some [])) \<rparr> \<rparr>)"

section \<open>Auxiliary facts\<close>

lemmas model_defs =
  selectModel_def stale_def forced_def refreshHealth_def checkHealth_def checkHealth_try_def
  getModelStatus_def status_details_def isModelLoaded_def isGpuOverloaded_def js_key_def js_lt_def js_gt_def js_ge_def of_clock_def
  isSimpleRequest_def decidePrimary_def decideSidecar_def decideFallback_def
  new_engine_def new_state_def new_status_def new_health_def

lemmas sample_defs =
  DEFAULTS_def primary_pulled_def sidecar_pulled_def primary_running_def
  backend_up_def backend_down_def probe_up_def probe_down_def world_up_def world_down_def
  complex_hints_def no_hints_def fresh_engine_def warm_engine_def cold_engine_def
  sample_arith_def exact_op_def


lemma refreshHealth_counters:
  "decisionsCount (state (refreshHealth cfg e p)) = decisionsCount (state e)"
  "primarySelections (state (refreshHealth cfg e p)) = primarySelections (state e)"
  "sidecarSelections (state (refreshHealth cfg e p)) = sidecarSelections (state e)"
  "fallbackSelections (state (refreshHealth cfg e p)) = fallbackSelections (state e)"
  "lastDecision (state (refreshHealth cfg e p)) = lastDecision (state e)"
  by (simp_all add: refreshHealth_def Let_def)

lemma refreshHealth_fields:
  "health (refreshHealth cfg e p) = checkHealth (health e) (backendResp p)"
  "calls (refreshHealth cfg e p) = calls e @ [RefreshHealth, CheckHealth]"
  "ollamaReachable (state (refreshHealth cfg e p)) = reachable (checkHealth (health e) (backendResp p))"
  "lastHealthCheck (state (refreshHealth cfg e p)) = clockRefreshed p"
  "gpuUtilization (state (refreshHealth cfg e p)) = nvidiaUtilization p"
  "vramUsage (state (refreshHealth cfg e p)) = nvidiaVram p"
  by (simp_all add: refreshHealth_def Let_def)

text \<open>What each of the three decide functions returns and stores.\<close>

lemma decidePrimary_fields:
  "decidePrimary cfg e why now = (d, e') \<Longrightarrow>
     model d = ''ollama/'' @ primaryModel cfg \<and> reason d = why \<and> source d = Primary \<and>
     gpuUtilization_d d = gpuUtilization (state e) \<and>
     vramUsedMB d = map_option usedMB (vramUsage (state e)) \<and>
     vramTotalMB d = map_option totalMB (vramUsage (state e)) \<and>
     modelLoaded d = loaded (primaryStatus (state e)) \<and> timestamp d = now \<and>
     e' = e\<lparr> state := (state e)\<lparr> decisionsCount := decisionsCount (state e) + 1,
                                 primarySelections := primarySelections (state e) + 1,
                                 lastDecision := Some d \<rparr> \<rparr>"
  by (auto simp: decidePrimary_def Let_def)

lemma decideSidecar_fields:
  "decideSidecar cfg e why now = (d, e') \<Longrightarrow>
     model d = ''ollama/'' @ sidecarModel cfg \<and> reason d = why \<and> source d = Sidecar \<and>
     gpuUtilization_d d = gpuUtilization (state e) \<and>
     vramUsedMB d = map_option usedMB (vramUsage (state e)) \<and>
     vramTotalMB d = map_option totalMB (vramUsage (state e)) \<and>
     modelLoaded d = loaded (sidecarStatus (state e)) \<and> timestamp d = now \<and>
     e' = e\<lparr> state := (state e)\<lparr> decisionsCount := decisionsCount (state e) + 1,
                                 sidecarSelections := sidecarSelections (state e) + 1,
                                 lastDecision := Some d \<rparr> \<rparr>"
  by (auto simp: decideSidecar_def Let_def)

lemma decideFallback_fields:
  "decideFallback cfg e why now = (d, e') \<Longrightarrow>
     model d = (case fallbackModel cfg of None \<Rightarrow> ''anthropic/claude-sonnet-4-5'' | Some m \<Rightarrow> m) \<and>
     reason d = why \<and> source d = Fallback \<and>
     gpuUtilization_d d = gpuUtilization (state e) \<and>
     vramUsedMB d = None \<and> vramTotalMB d = None \<and>
     modelLoaded d = False \<and> timestamp d = now \<and>
     e' = e\<lparr> state := (state e)\<lparr> decisionsCount := decisionsCount (state e) + 1,
                                 fallbackSelections := fallbackSelections (state e) + 1,
                                 lastDecision := Some d \<rparr> \<rparr>"
  by (auto simp: decideFallback_def Let_def)

text \<open>An unforced call ends in one of the three decide functions, on the engine that
  the staleness guard leaves.\<close>

lemma selectModel_unforced_cases:
  assumes "forced context = None"
    and "selectModel ar cfg e context w = (d, e')"
  obtains why where "decidePrimary cfg (if stale ar cfg e w then refreshHealth cfg e (observed w) else e) why (clockStamp w) = (d, e')"
  | why where "decideSidecar cfg (if stale ar cfg e w then refreshHealth cfg e (observed w) else e) why (clockStamp w) = (d, e')"
  | why where "decideFallback cfg (if stale ar cfg e w then refreshHealth cfg e (observed w) else e) why (clockStamp w) = (d, e')"
  using assms unfolding selectModel_def Let_def
  by (simp split: if_splits)

lemma selectModel_forced_eq:
  assumes "forced context = Some fm"
  shows "selectModel ar cfg e context w =
     (let decision = \<lparr> model = fm, reason = ''Forced model selection'', source = Primary,
                       gpuUtilization_d = None, vramUsedMB = None, vramTotalMB = None,
                       modelLoaded = isModelLoaded (health e) fm, timestamp = clockStamp w \<rparr>
      in (decision, e\<lparr> state := (state e)\<lparr> lastDecision := Some decision \<rparr> \<rparr>))"
  using assms by (simp add: selectModel_def)

text \<open>How one call changes the counters and the last decision.\<close>

lemma selectModel_counter_changes:
  "selectModel ar cfg e context w = (d, e') \<Longrightarrow>
     lastDecision (state e') = Some d \<and>
     (case forced context of
        Some fm \<Rightarrow>
          decisionsCount (state e') = decisionsCount (state e) \<and>
          primarySelections (state e') = primarySelections (state e) \<and>
          sidecarSelections (state e') = sidecarSelections (state e) \<and>
          fallbackSelections (state e') = fallbackSelections (state e)
      | None \<Rightarrow>
          decisionsCount (state e') = decisionsCount (state e) + 1 \<and>
          primarySelections (state e')
            = primarySelections (state e) + (if source d = Primary then 1 else 0) \<and>
          sidecarSelections (state e')
            = sidecarSelections (state e) + (if source d = Sidecar then 1 else 0) \<and>
          fallbackSelections (state e')
            = fallbackSelections (state e) + (if source d = Fallback then 1 else 0))"
proof (cases "forced context")
  case (Some fm)
  assume "selectModel ar cfg e context w = (d, e')"
  with Some show ?thesis
    by (auto simp: selectModel_forced_eq Let_def)
next
  case None
  assume sel: "selectModel ar cfg e context w = (d, e')"
  from None sel show ?thesis
  proof (cases rule: selectModel_unforced_cases)
    case (1 why)
    from decidePrimary_fields [OF 1] None show ?thesis
      by (simp add: refreshHealth_counters)
  next
    case (2 why)
    from decideSidecar_fields [OF 2] None show ?thesis
      by (simp add: refreshHealth_counters)
  next
    case (3 why)
    from decideFallback_fields [OF 3] None show ?thesis
      by (simp add: refreshHealth_counters)
  qed
qed

text \<open>One operation keeps the counter equation and lowers no counter; so does a sequence.\<close>

lemma step_counters:
  "counters_le (state e) (state (step ar cfg e x)) \<and>
   (counters_sum (state e) = counters_sum (state (step ar cfg e x)))"
proof (cases x)
  case (Select hs w)
  obtain d e' where r: "selectModel ar cfg e hs w = (d, e')"
    by (cases "selectModel ar cfg e hs w")
  from selectModel_counter_changes [OF r] Select r show ?thesis
    by (cases "source d") (auto simp: counters_le_def counters_sum_def split: option.splits)
next
  case (Refresh p)
  then show ?thesis
    by (simp add: counters_le_def counters_sum_def refreshHealth_counters)
qed

lemma run_append: "run ar cfg e (xs @ ys) = run ar cfg (run ar cfg e xs) ys"
  by (simp add: run_def)

lemma run_counters_le: "counters_le (state e) (state (run ar cfg e ops))"
proof (induction ops arbitrary: e)
  case Nil
  show ?case by (simp add: run_def counters_le_def)
next
  case (Cons x xs)
  have a: "counters_le (state e) (state (step ar cfg e x))"
    using step_counters by blast
  have b: "counters_le (state (step ar cfg e x)) (state (run ar cfg (step ar cfg e x) xs))"
    by (rule Cons.IH)
  from a b show ?case
    by (auto simp: run_def counters_le_def)
qed

lemma run_counters_sum: "counters_sum (state (run ar cfg e ops)) = counters_sum (state e)"
proof (induction ops arbitrary: e)
  case Nil
  show ?case by (simp add: run_def)
next
  case (Cons x xs)
  have "counters_sum (state (run ar cfg (step ar cfg e x) xs))
      = counters_sum (state (step ar cfg e x))"
    by (rule Cons.IH)
  with step_counters [of e ar cfg x] show ?case
    by (simp add: run_def)
qed

text \<open>The policy table: what firing means for each branch, that exactly one branch
  fires, and that an unforced call on a reachable backend returns what the firing branch
  prescribes.\<close>

lemma fires_unfold:
  "fires ar cfg st hs B6a = branch_cond ar cfg st hs B6a"
  "fires ar cfg st hs B6b = (branch_cond ar cfg st hs B6b \<and> \<not> branch_cond ar cfg st hs B6a)"
  "fires ar cfg st hs B6c = (branch_cond ar cfg st hs B6c \<and> \<not> branch_cond ar cfg st hs B6a
     \<and> \<not> branch_cond ar cfg st hs B6b)"
  "fires ar cfg st hs B6d = (branch_cond ar cfg st hs B6d \<and> \<not> branch_cond ar cfg st hs B6a
     \<and> \<not> branch_cond ar cfg st hs B6b \<and> \<not> branch_cond ar cfg st hs B6c)"
  "fires ar cfg st hs B6e = (branch_cond ar cfg st hs B6e \<and> \<not> branch_cond ar cfg st hs B6a
     \<and> \<not> branch_cond ar cfg st hs B6b \<and> \<not> branch_cond ar cfg st hs B6c
     \<and> \<not> branch_cond ar cfg st hs B6d)"
  "fires ar cfg st hs B6f = (branch_cond ar cfg st hs B6f \<and> \<not> branch_cond ar cfg st hs B6a
     \<and> \<not> branch_cond ar cfg st hs B6b \<and> \<not> branch_cond ar cfg st hs B6c
     \<and> \<not> branch_cond ar cfg st hs B6d \<and> \<not> branch_cond ar cfg st hs B6e)"
  "fires ar cfg st hs B6g = (branch_cond ar cfg st hs B6g \<and> \<not> branch_cond ar cfg st hs B6a
     \<and> \<not> branch_cond ar cfg st hs B6b \<and> \<not> branch_cond ar cfg st hs B6c
     \<and> \<not> branch_cond ar cfg st hs B6d \<and> \<not> branch_cond ar cfg st hs B6e
     \<and> \<not> branch_cond ar cfg st hs B6f)"
  unfolding fires_def branches_def by auto

lemma fires_unique: "fires ar cfg st hs b \<Longrightarrow> fires ar cfg st hs b' \<Longrightarrow> b = b'"
  by (cases b; cases b'; simp add: fires_unfold; blast)

lemma fires_exists: "\<exists>b. fires ar cfg st hs b"
proof -
  have "fires ar cfg st hs B6a \<or> fires ar cfg st hs B6b \<or> fires ar cfg st hs B6c \<or> fires ar cfg st hs B6d
    \<or> fires ar cfg st hs B6e \<or> fires ar cfg st hs B6f \<or> fires ar cfg st hs B6g"
    unfolding fires_unfold by auto
  then show ?thesis by blast
qed

lemma selectModel_fired:
  assumes "forced hs = None"
    and "e1 = (if stale ar cfg e w then refreshHealth cfg e (observed w) else e)"
    and "ollamaReachable (state e1)"
    and "fires ar cfg (state e1) hs b"
  shows "source (fst (selectModel ar cfg e hs w)) = branch_source b \<and>
         reason (fst (selectModel ar cfg e hs w)) = branch_reason ar cfg (state e1) b"
proof -
  have sel: "selectModel ar cfg e hs w =
     (let primaryPulled = pulled (primaryStatus (state e1));
          sidecarPulled = pulled (sidecarStatus (state e1));
          primaryLoaded = loaded (primaryStatus (state e1));
          sidecarLoaded = loaded (sidecarStatus (state e1));
          gpuOverloaded = isGpuOverloaded ar cfg (state e1);
          isSimple = isSimpleRequest hs
      in if primaryPulled \<and> primaryLoaded \<and> \<not> gpuOverloaded
         then decidePrimary cfg e1 ''Primary model loaded and GPU has capacity'' (clockStamp w)
         else if primaryPulled \<and> \<not> gpuOverloaded \<and> \<not> isSimple
         then decidePrimary cfg e1
                ''Primary model available, loading for complex request'' (clockStamp w)
         else if sidecarPulled \<and> (gpuOverloaded \<or> isSimple)
         then decideSidecar cfg e1
                (if gpuOverloaded
                 then ''GPU VRAM above ''
                        @ toFixed0 ar (js_times ar (gpuMemoryThreshold cfg) (Finite 100))
                        @ ''% - routing to CPU sidecar''
                 else ''Simple request routed to fast CPU sidecar'')
                (clockStamp w)
         else if sidecarPulled \<and> sidecarLoaded
         then decideSidecar cfg e1 ''Sidecar already loaded - fast response path'' (clockStamp w)
         else if primaryPulled
         then decidePrimary cfg e1
                ''Primary model available with partial GPU offload'' (clockStamp w)
         else if sidecarPulled
         then decideSidecar cfg e1 ''Only sidecar model available'' (clockStamp w)
         else decideFallback cfg e1 ''No local models available'' (clockStamp w))"
    using assms(1,3) unfolding assms(2) selectModel_def by (simp add: Let_def)
  have dec: "source (fst (decidePrimary cfg e1 why now)) = Primary"
    "reason (fst (decidePrimary cfg e1 why now)) = why"
    "source (fst (decideSidecar cfg e1 why now)) = Sidecar"
    "reason (fst (decideSidecar cfg e1 why now)) = why"
    "source (fst (decideFallback cfg e1 why now)) = Fallback"
    "reason (fst (decideFallback cfg e1 why now)) = why" for why now
    by (simp_all add: decidePrimary_def decideSidecar_def decideFallback_def Let_def)
  from assms(4) show ?thesis
    unfolding sel Let_def
    by (cases b) (auto simp: fires_unfold dec)
qed

text \<open>A body that is \<^verbatim>\<open>null\<close> leaves the \<^verbatim>\<open>try\<close> block as a failed call does.\<close>

lemma checkHealth_null_body:
  "versionResp b = Inr Null \<or> tagsResp b = Inr Null \<or> psResp b = Inr Null \<Longrightarrow>
     isl (checkHealth_try b) \<and>
     checkHealth h b =
       \<lparr> reachable = False, version = None, pulledModels = pulledModels h,
         runningModels = [], lastChecked = clockChecked b \<rparr>"
  by (auto simp: checkHealth_def checkHealth_try_def split: sum.splits body.splits)

text \<open>Where the engine's difference and products are exact, the staleness test is the
  comparison of the elapsed time with twice the interval in milliseconds.\<close>

lemma stale_exact:
  assumes "healthCheckIntervalSec cfg = Finite i"
    and "js_minus ar (of_clock (clockStale w)) (of_clock (lastHealthCheck (state e)))
           = Finite (real_of_int (clockStale w - lastHealthCheck (state e)))"
    and "js_times ar (Finite i) (Finite 1000) = Finite (i * 1000)"
    and "js_times ar (Finite (i * 1000)) (Finite 2) = Finite (i * 1000 * 2)"
  shows "stale ar cfg e w
           = (i * 1000 * 2 < real_of_int (clockStale w - lastHealthCheck (state e)))"
  using assms by (simp add: stale_def js_gt_def js_lt_def js_key_def)

text \<open>An empty \<^verbatim>\<open>forceModel\<close> is handled as an absent one.\<close>

lemma selectModel_empty_forceModel:
  "selectModel ar cfg e (Some (c\<lparr> forceModel := Some [] \<rparr>)) w
     = selectModel ar cfg e (Some (c\<lparr> forceModel := None \<rparr>)) w"
proof -
  have s: "isSimpleRequest (Some (c\<lparr> forceModel := Some [] \<rparr>))
      = isSimpleRequest (Some (c\<lparr> forceModel := None \<rparr>))"
    by (simp add: isSimpleRequest_def)
  have f: "forced (Some (c\<lparr> forceModel := Some [] \<rparr>)) = None"
    "forced (Some (c\<lparr> forceModel := None \<rparr>)) = None"
    by (simp_all add: forced_def)
  show ?thesis
    unfolding selectModel_def f s by simp
qed

section \<open>Backend health client: failure of a health check\<close>

text \<open>
  Claim C4.  Whatever the cached snapshot is, when any of the three backend calls of
  \<^verbatim>\<open>checkHealth\<close> fails, the \<^verbatim>\<open>try\<close> block is left by the exception, and
  \<^verbatim>\<open>checkHealth\<close> nevertheless returns a snapshot: the one with \<^verbatim>\<open>reachable\<close> false, the
  pulled models of the previous snapshot, no running models and the current clock value.
\<close>

theorem checkHealth_failure_degrades:
  "isl (versionResp b) \<or> isl (tagsResp b) \<or> isl (psResp b) \<Longrightarrow>
     isl (checkHealth_try b) \<and>
     checkHealth h b =
       \<lparr> reachable = False, version = None, pulledModels = pulledModels h,
         runningModels = [], lastChecked = clockChecked b \<rparr>"
  by (auto simp: checkHealth_def checkHealth_try_def isl_def split: sum.splits)

text \<open>The pulled-model list survives a timeout of the second call.\<close>

theorem checkHealth_failure_degrades_witness:
  "checkHealth
     \<lparr> reachable = True, version = Some ''0.5.1'', pulledModels = [sidecar_pulled],
       runningModels = [primary_running], lastChecked = 1000 \<rparr>
     \<lparr> versionResp = Inr (Body (Some ''0.5.1'')), tagsResp = Inl Timeout,
       psResp = Inr (Body None), clockChecked = 31000 \<rparr>
   = \<lparr> reachable = False, version = None, pulledModels = [sidecar_pulled],
       runningModels = [], lastChecked = 31000 \<rparr>"
  using checkHealth_failure_degrades
    [of "\<lparr> versionResp = Inr (Body (Some ''0.5.1'')), tagsResp = Inl Timeout,
           psResp = Inr (Body None), clockChecked = 31000 \<rparr>"
        "\<lparr> reachable = True, version = Some ''0.5.1'', pulledModels = [sidecar_pulled],
           runningModels = [primary_running], lastChecked = 1000 \<rparr>"]
  by simp

section \<open>Routing engine: the overload test\<close>

text \<open>
  Claim C6.  In a state with no VRAM reading the overload test is false, whatever the
  utilization reading and the configured threshold are.  With a reading, the test is the
  comparison of the quotient \<^verbatim>\<open>usedMB / totalMB\<close>, as the engine computes it, with the
  threshold; when that quotient and the threshold are finite, it is their comparison as
  real numbers.
\<close>

theorem isGpuOverloaded_fail_open:
  "\<not> isGpuOverloaded ar (cfg\<lparr> gpuMemoryThreshold := t \<rparr>)
        (st\<lparr> gpuUtilization := u, vramUsage := None \<rparr>) \<and>
   isGpuOverloaded ar cfg (st\<lparr> vramUsage := Some v \<rparr>)
     = js_ge (js_divide ar (usedMB v) (totalMB v)) (gpuMemoryThreshold cfg) \<and>
   (js_divide ar (usedMB v) (totalMB v) = Finite q \<and> gpuMemoryThreshold cfg = Finite r \<longrightarrow>
      isGpuOverloaded ar cfg (st\<lparr> vramUsage := Some v \<rparr>) = (r \<le> q))"
  by (simp add: isGpuOverloaded_def js_ge_def js_key_def)

text \<open>At the default threshold: 7372 of 8192 MB is overloaded, 4096 of 8192 MB is not,
  and no reading at full utilization is not.\<close>

theorem isGpuOverloaded_fail_open_witness:
  "isGpuOverloaded sample_arith DEFAULTS
     (new_state DEFAULTS\<lparr> vramUsage := Some \<lparr> usedMB = Finite 7372, totalMB = Finite 8192 \<rparr> \<rparr>) \<and>
   \<not> isGpuOverloaded sample_arith DEFAULTS
     (new_state DEFAULTS\<lparr> vramUsage := Some \<lparr> usedMB = Finite 4096, totalMB = Finite 8192 \<rparr> \<rparr>) \<and>
   \<not> isGpuOverloaded sample_arith DEFAULTS
     (new_state DEFAULTS\<lparr> gpuUtilization := Some (Finite 100), vramUsage := None \<rparr>)"
proof -
  have q: "js_divide sample_arith (Finite 7372) (Finite 8192) = Finite (7372 / 8192)"
    "js_divide sample_arith (Finite 4096) (Finite 8192) = Finite (4096 / 8192)"
    by (simp_all add: sample_arith_def exact_op_def)
  have r: "gpuMemoryThreshold DEFAULTS = Finite (7656119366529843 / 9007199254740992)"
    by (simp add: DEFAULTS_def)
  from
    isGpuOverloaded_fail_open [where ar = sample_arith and cfg = DEFAULTS
      and t = "gpuMemoryThreshold DEFAULTS" and st = "new_state DEFAULTS"
      and u = "Some (Finite 100)"
      and v = "\<lparr> usedMB = Finite 7372, totalMB = Finite 8192 \<rparr>"
      and q = "7372 / 8192" and r = "7656119366529843 / 9007199254740992"]
    isGpuOverloaded_fail_open [where ar = sample_arith and cfg = DEFAULTS
      and t = "gpuMemoryThreshold DEFAULTS" and st = "new_state DEFAULTS"
      and u = "Some (Finite 100)"
      and v = "\<lparr> usedMB = Finite 4096, totalMB = Finite 8192 \<rparr>"
      and q = "4096 / 8192" and r = "7656119366529843 / 9007199254740992"]
    q r
  show ?thesis
    by (simp add: js_ge_def js_key_def DEFAULTS_def)
qed

section \<open>Routing engine: counters and the last decision\<close>

text \<open>
  Claim C2, as the code has it.  Every call overwrites \<^verbatim>\<open>lastDecision\<close> with the decision
  it returns.  A call that is not forced increments \<^verbatim>\<open>decisionsCount\<close> by one and, of the
  three selection counters, exactly the one of the decision's source by one.  A forced
  call leaves all four counters as they were.
\<close>

theorem selectModel_counters:
  "selectModel ar cfg e context w = (d, e') \<Longrightarrow>
     lastDecision (state e') = Some d \<and>
     (case forced context of
        Some fm \<Rightarrow>
          decisionsCount (state e') = decisionsCount (state e) \<and>
          primarySelections (state e') = primarySelections (state e) \<and>
          sidecarSelections (state e') = sidecarSelections (state e) \<and>
          fallbackSelections (state e') = fallbackSelections (state e)
      | None \<Rightarrow>
          decisionsCount (state e') = decisionsCount (state e) + 1 \<and>
          primarySelections (state e')
            = primarySelections (state e) + (if source d = Primary then 1 else 0) \<and>
          sidecarSelections (state e')
            = sidecarSelections (state e) + (if source d = Sidecar then 1 else 0) \<and>
          fallbackSelections (state e')
            = fallbackSelections (state e) + (if source d = Fallback then 1 else 0))"
  by (rule selectModel_counter_changes)

text \<open>The claim as stated fails on a forced call: the decision is labelled primary, and
  neither the total nor the primary counter moves.\<close>

theorem selectModel_forced_skips_counters:
  "decisionsCount (state (snd (selectModel sample_arith DEFAULTS warm_engine
       (Some (no_hints\<lparr> forceModel := Some ''llama3:8b'' \<rparr>)) world_up)))
     \<noteq> decisionsCount (state warm_engine) + 1 \<and>
   primarySelections (state (snd (selectModel sample_arith DEFAULTS warm_engine
       (Some (no_hints\<lparr> forceModel := Some ''llama3:8b'' \<rparr>)) world_up)))
     \<noteq> primarySelections (state warm_engine) + 1 \<and>
   source (fst (selectModel sample_arith DEFAULTS warm_engine
       (Some (no_hints\<lparr> forceModel := Some ''llama3:8b'' \<rparr>)) world_up)) = Primary"
  by (simp add: selectModel_def forced_def no_hints_def Let_def)

text \<open>The first call on a new engine, with a complex request, against the running
  backend.\<close>

theorem selectModel_counters_witness:
  "fst (selectModel sample_arith DEFAULTS fresh_engine (Some complex_hints) world_up)
     = \<lparr> model = ''ollama/deepseek-coder-v2:16b'',
         reason = ''Primary model loaded and GPU has capacity'',
         source = Primary, gpuUtilization_d = Some (Finite 40), vramUsedMB = Some (Finite 4096),
         vramTotalMB = Some (Finite 8192), modelLoaded = True, timestamp = 1735862400002 \<rparr> \<and>
   decisionsCount (state (snd (selectModel sample_arith DEFAULTS fresh_engine
       (Some complex_hints) world_up))) = 1 \<and>
   primarySelections (state (snd (selectModel sample_arith DEFAULTS fresh_engine
       (Some complex_hints) world_up))) = 1 \<and>
   sidecarSelections (state (snd (selectModel sample_arith DEFAULTS fresh_engine
       (Some complex_hints) world_up))) = 0 \<and>
   fallbackSelections (state (snd (selectModel sample_arith DEFAULTS fresh_engine
       (Some complex_hints) world_up))) = 0"
proof -
  have d: "fst (selectModel sample_arith DEFAULTS fresh_engine (Some complex_hints) world_up)
     = \<lparr> model = ''ollama/deepseek-coder-v2:16b'',
         reason = ''Primary model loaded and GPU has capacity'',
         source = Primary, gpuUtilization_d = Some (Finite 40), vramUsedMB = Some (Finite 4096),
         vramTotalMB = Some (Finite 8192), modelLoaded = True, timestamp = 1735862400002 \<rparr>"
    by (simp add: model_defs sample_defs Let_def)
  have f: "forced (Some complex_hints) = None"
    by (simp add: forced_def complex_hints_def)
  have z: "decisionsCount (state fresh_engine) = 0" "primarySelections (state fresh_engine) = 0"
    "sidecarSelections (state fresh_engine) = 0" "fallbackSelections (state fresh_engine) = 0"
    by (simp_all add: fresh_engine_def new_engine_def new_state_def)
  from selectModel_counters [OF surjective_pairing, of sample_arith DEFAULTS fresh_engine
      "Some complex_hints" world_up]
  show ?thesis by (simp add: d f z)
qed

section \<open>Routing engine: the forced override\<close>

text \<open>
  Claim C3, as the code has it.  For every engine, whatever its reachability flag and
  however old its health data, a call whose \<^verbatim>\<open>forceModel\<close> is a non-empty string \<open>x\<close>
  returns a decision with model \<open>x\<close> and source primary, logs no call of
  \<^verbatim>\<open>refreshHealth\<close> or \<^verbatim>\<open>checkHealth\<close>, leaves the client's snapshot alone and changes
  nothing in the engine but \<^verbatim>\<open>lastDecision\<close>.
\<close>

theorem selectModel_forced_verbatim:
  "forceModel c = Some x \<Longrightarrow> x \<noteq> [] \<Longrightarrow>
   selectModel ar cfg e (Some c) w = (d, e') \<Longrightarrow>
     model d = x \<and> source d = Primary \<and> reason d = ''Forced model selection'' \<and>
     calls e' = calls e \<and> health e' = health e \<and>
     e' = e\<lparr> state := (state e)\<lparr> lastDecision := Some d \<rparr> \<rparr>"
proof -
  assume "forceModel c = Some x" and "x \<noteq> []"
  then have "forced (Some c) = Some x"
    by (simp add: forced_def)
  moreover assume "selectModel ar cfg e (Some c) w = (d, e')"
  ultimately show ?thesis
    by (auto simp: selectModel_forced_eq Let_def)
qed

text \<open>With the empty string as \<^verbatim>\<open>forceModel\<close> the override is not taken: on a new engine
  and a backend that times out, the call refreshes and returns the fallback.\<close>

theorem selectModel_empty_forceModel_not_forced:
  "model (fst (selectModel sample_arith DEFAULTS fresh_engine
      (Some (no_hints\<lparr> forceModel := Some [] \<rparr>)) world_down)) = ''anthropic/claude-sonnet-4-5'' \<and>
   source (fst (selectModel sample_arith DEFAULTS fresh_engine
      (Some (no_hints\<lparr> forceModel := Some [] \<rparr>)) world_down)) = Fallback \<and>
   calls (snd (selectModel sample_arith DEFAULTS fresh_engine
      (Some (no_hints\<lparr> forceModel := Some [] \<rparr>)) world_down)) = [RefreshHealth, CheckHealth]"
  by (simp add: model_defs sample_defs Let_def)

text \<open>A forced call on a new engine, which is unreachable and stale.\<close>

theorem selectModel_forced_verbatim_witness:
  "selectModel sample_arith DEFAULTS fresh_engine
      (Some (no_hints\<lparr> forceModel := Some ''x'' \<rparr>)) world_down
   = (\<lparr> model = ''x'', reason = ''Forced model selection'', source = Primary,
        gpuUtilization_d = None, vramUsedMB = None, vramTotalMB = None,
        modelLoaded = False, timestamp = 1735862400002 \<rparr>,
      fresh_engine\<lparr> state := (state fresh_engine)\<lparr> lastDecision := Some
        \<lparr> model = ''x'', reason = ''Forced model selection'', source = Primary,
          gpuUtilization_d = None, vramUsedMB = None, vramTotalMB = None,
          modelLoaded = False, timestamp = 1735862400002 \<rparr> \<rparr> \<rparr>) \<and>
   \<not> ollamaReachable (state fresh_engine) \<and>
   stale sample_arith DEFAULTS fresh_engine world_down \<and>
   calls (snd (selectModel sample_arith DEFAULTS fresh_engine
      (Some (no_hints\<lparr> forceModel := Some ''x'' \<rparr>)) world_down)) = []"
proof -
  have a: "forceModel (no_hints\<lparr> forceModel := Some ''x'' \<rparr>) = Some ''x''" and b: "''x'' \<noteq> []"
    by simp_all
  have c: "calls fresh_engine = []" "\<not> ollamaReachable (state fresh_engine)"
    "stale sample_arith DEFAULTS fresh_engine world_down"
    by (simp_all add: model_defs sample_defs)
  have d: "fst (selectModel sample_arith DEFAULTS fresh_engine
      (Some (no_hints\<lparr> forceModel := Some ''x'' \<rparr>)) world_down)
    = \<lparr> model = ''x'', reason = ''Forced model selection'', source = Primary,
        gpuUtilization_d = None, vramUsedMB = None, vramTotalMB = None,
        modelLoaded = False, timestamp = 1735862400002 \<rparr>"
    by (simp add: model_defs sample_defs Let_def)
  from selectModel_forced_verbatim [OF a b surjective_pairing, of sample_arith DEFAULTS
      fresh_engine world_down] c d
  show ?thesis
    by (simp add: prod_eq_iff)
qed

section \<open>Routing engine: the staleness guard\<close>

text \<open>
  Claim C5.  Take a call that is not forced.  When the time since \<^verbatim>\<open>lastHealthCheck\<close>
  exceeds twice the health-check interval in milliseconds, difference, product and
  comparison being those that the engine computes, the call performs exactly one
  \<^verbatim>\<open>refreshHealth\<close>, and the decision is taken on the refreshed data: the snapshot, the
  time of the check and the reachability flag are those of the refresh, the decision
  carries the refreshed utilization, and it is the fallback when the refresh found the
  backend unreachable.  Otherwise the call performs no refresh and decides on the data it
  found.
\<close>

theorem selectModel_staleness_refresh:
  "forced context = None \<Longrightarrow> selectModel ar cfg e context w = (d, e') \<Longrightarrow>
     (if js_gt (js_minus ar (of_clock (clockStale w)) (of_clock (lastHealthCheck (state e))))
               (js_times ar (js_times ar (healthCheckIntervalSec cfg) (Finite 1000)) (Finite 2))
      then calls e' = calls e @ [RefreshHealth, CheckHealth] \<and>
           health e' = checkHealth (health e) (backendResp (observed w)) \<and>
           lastHealthCheck (state e') = clockRefreshed (observed w) \<and>
           ollamaReachable (state e') = reachable (health e') \<and>
           gpuUtilization_d d = nvidiaUtilization (observed w) \<and>
           (reachable (health e') \<or> source d = Fallback)
      else calls e' = calls e \<and> health e' = health e \<and>
           lastHealthCheck (state e') = lastHealthCheck (state e) \<and>
           ollamaReachable (state e') = ollamaReachable (state e) \<and>
           gpuUtilization_d d = gpuUtilization (state e) \<and>
           (ollamaReachable (state e) \<or> source d = Fallback))"
proof -
  assume f: "forced context = None" and sel: "selectModel ar cfg e context w = (d, e')"
  have st: "stale ar cfg e w
    = js_gt (js_minus ar (of_clock (clockStale w)) (of_clock (lastHealthCheck (state e))))
            (js_times ar (js_times ar (healthCheckIntervalSec cfg) (Finite 1000)) (Finite 2))"
    by (simp add: stale_def)
  have unreach: "ollamaReachable (state (if stale ar cfg e w then refreshHealth cfg e (observed w) else e))
      \<or> source d = Fallback"
    using f sel by (auto simp: selectModel_def Let_def decideFallback_def split: if_splits)
  from f sel show ?thesis
  proof (cases rule: selectModel_unforced_cases)
    case (1 why)
    from decidePrimary_fields [OF 1] unreach show ?thesis
      unfolding st [symmetric] by (auto simp: refreshHealth_fields)
  next
    case (2 why)
    from decideSidecar_fields [OF 2] unreach show ?thesis
      unfolding st [symmetric] by (auto simp: refreshHealth_fields)
  next
    case (3 why)
    from decideFallback_fields [OF 3] unreach show ?thesis
      unfolding st [symmetric] by (auto simp: refreshHealth_fields)
  qed
qed

text \<open>A new engine is stale and refreshes once; the engine that has just refreshed does
  not refresh again.\<close>

theorem selectModel_staleness_refresh_witness:
  "stale sample_arith DEFAULTS fresh_engine world_up \<and>
   calls (snd (selectModel sample_arith DEFAULTS fresh_engine (Some complex_hints) world_up))
     = [RefreshHealth, CheckHealth] \<and>
   lastHealthCheck (state (snd (selectModel sample_arith DEFAULTS fresh_engine
     (Some complex_hints) world_up))) = 1735862400001 \<and>
   \<not> stale sample_arith DEFAULTS warm_engine world_up \<and>
   calls (snd (selectModel sample_arith DEFAULTS warm_engine (Some complex_hints) world_up))
     = calls warm_engine"
proof -
  have f: "forced (Some complex_hints) = None"
    by (simp add: forced_def complex_hints_def)
  have a: "stale sample_arith DEFAULTS fresh_engine world_up" "calls fresh_engine = []"
    "clockRefreshed (observed world_up) = 1735862400001"
    by (simp_all add: model_defs sample_defs)
  have b: "\<not> stale sample_arith DEFAULTS warm_engine world_up"
    by (simp add: model_defs sample_defs Let_def)
  from selectModel_staleness_refresh [where ar = sample_arith and cfg = DEFAULTS
      and e = fresh_engine and w = world_up, OF f surjective_pairing]
    selectModel_staleness_refresh [where ar = sample_arith and cfg = DEFAULTS
      and e = warm_engine and w = world_up, OF f surjective_pairing]
    a b
  show ?thesis
    by (simp add: stale_def)
qed

section \<open>Routing engine: requests without hints\<close>

text \<open>
  Claim C8, as the code has it.  A call that passes a hints object with neither
  \<^verbatim>\<open>messageLength\<close> nor \<^verbatim>\<open>conversationDepth\<close> is classified as simple, and
  \<^verbatim>\<open>selectModel\<close> returns for it exactly what it returns for the explicit hints 0 and 0.
  A call that passes no hints object at all is classified as not simple.
\<close>

theorem isSimpleRequest_absent_fields:
  "isSimpleRequest (Some \<lparr> messageLength = None, conversationDepth = None, forceModel = fm \<rparr>) \<and>
   isSimpleRequest (Some \<lparr> messageLength = Some 0, conversationDepth = Some 0, forceModel = fm \<rparr>) \<and>
   selectModel ar cfg e
       (Some \<lparr> messageLength = None, conversationDepth = None, forceModel = fm \<rparr>) w
     = selectModel ar cfg e
       (Some \<lparr> messageLength = Some 0, conversationDepth = Some 0, forceModel = fm \<rparr>) w \<and>
   \<not> isSimpleRequest None"
proof -
  have s: "isSimpleRequest (Some \<lparr> messageLength = None, conversationDepth = None, forceModel = fm \<rparr>)"
    "isSimpleRequest (Some \<lparr> messageLength = Some 0, conversationDepth = Some 0, forceModel = fm \<rparr>)"
    "\<not> isSimpleRequest None"
    by (simp_all add: isSimpleRequest_def)
  have f: "forced (Some \<lparr> messageLength = None, conversationDepth = None, forceModel = fm \<rparr>)
    = forced (Some \<lparr> messageLength = Some 0, conversationDepth = Some 0, forceModel = fm \<rparr>)"
    by (simp add: forced_def)
  show ?thesis
    by (simp add: s f selectModel_def Let_def split: option.splits)
qed

text \<open>The claim as stated fails on a call without a hints object: with both models pulled,
  none loaded and the GPU at half its memory, it is routed to the primary model, where
  the call with the explicit hints 0 and 0 is routed to the sidecar.\<close>

theorem selectModel_without_context_not_simple:
  "\<not> isSimpleRequest None \<and>
   isSimpleRequest (Some \<lparr> messageLength = Some 0, conversationDepth = Some 0, forceModel = None \<rparr>) \<and>
   source (fst (selectModel sample_arith DEFAULTS cold_engine None world_up)) = Primary \<and>
   source (fst (selectModel sample_arith DEFAULTS cold_engine
     (Some \<lparr> messageLength = Some 0, conversationDepth = Some 0, forceModel = None \<rparr>) world_up))
     = Sidecar"
  by (simp add: model_defs sample_defs Let_def)

section \<open>Routing engine: the readings a decision carries\<close>

text \<open>
  Claim C9, as the code has it by design.  The readings in effect at decision time are
  those of a refresh when the call is not forced and stale, and those the engine held
  otherwise.  A primary or sidecar decision carries the utilization and both VRAM
  readings; a fallback decision carries the utilization; a forced decision carries none
  of the three.
\<close>

theorem selectModel_gpu_readings:
  "selectModel ar cfg e context w = (d, e') \<Longrightarrow>
     gpuUtilization (state e')
       = (if forced context = None \<and> stale ar cfg e w then nvidiaUtilization (observed w)
          else gpuUtilization (state e)) \<and>
     vramUsage (state e')
       = (if forced context = None \<and> stale ar cfg e w then nvidiaVram (observed w)
          else vramUsage (state e)) \<and>
     (case forced context of
        Some fm \<Rightarrow> gpuUtilization_d d = None \<and> vramUsedMB d = None \<and> vramTotalMB d = None
      | None \<Rightarrow>
          gpuUtilization_d d = gpuUtilization (state e') \<and>
          (source d = Fallback \<or>
           vramUsedMB d = map_option usedMB (vramUsage (state e')) \<and>
           vramTotalMB d = map_option totalMB (vramUsage (state e'))))"
proof (cases "forced context")
  case (Some fm)
  assume "selectModel ar cfg e context w = (d, e')"
  with Some show ?thesis
    by (auto simp: selectModel_forced_eq Let_def)
next
  case None
  assume sel: "selectModel ar cfg e context w = (d, e')"
  from None sel show ?thesis
  proof (cases rule: selectModel_unforced_cases)
    case (1 why)
    from decidePrimary_fields [OF 1] None show ?thesis
      by (simp add: refreshHealth_fields)
  next
    case (2 why)
    from decideSidecar_fields [OF 2] None show ?thesis
      by (simp add: refreshHealth_fields)
  next
    case (3 why)
    from decideFallback_fields [OF 3] None show ?thesis
      by (simp add: refreshHealth_fields)
  qed
qed

text \<open>The claim as stated fails on a forced call, whose decision has no reading although
  the state has all three, and on a fallback decision, which has the utilization and no
  VRAM field although the state has a VRAM reading.  The helpers for the primary and the
  sidecar attach the VRAM pair right after the utilization; the helper for the fallback
  attaches the utilization only.\<close>

theorem selectModel_readings_dropped:
  "gpuUtilization (state warm_engine) = Some (Finite 40) \<and>
   vramUsage (state warm_engine) = Some \<lparr> usedMB = Finite 4096, totalMB = Finite 8192 \<rparr> \<and>
   gpuUtilization_d (fst (selectModel sample_arith DEFAULTS warm_engine
       (Some (no_hints\<lparr> forceModel := Some ''llama3:8b'' \<rparr>)) world_up)) = None \<and>
   vramUsedMB (fst (selectModel sample_arith DEFAULTS warm_engine
       (Some (no_hints\<lparr> forceModel := Some ''llama3:8b'' \<rparr>)) world_up)) = None \<and>
   gpuUtilization (state (snd (selectModel sample_arith DEFAULTS fresh_engine
       (Some no_hints) world_down))) = Some (Finite 97) \<and>
   vramUsage (state (snd (selectModel sample_arith DEFAULTS fresh_engine
       (Some no_hints) world_down))) = Some \<lparr> usedMB = Finite 7372, totalMB = Finite 8192 \<rparr> \<and>
   source (fst (selectModel sample_arith DEFAULTS fresh_engine
       (Some no_hints) world_down)) = Fallback \<and>
   gpuUtilization_d (fst (selectModel sample_arith DEFAULTS fresh_engine
       (Some no_hints) world_down)) = Some (Finite 97) \<and>
   vramUsedMB (fst (selectModel sample_arith DEFAULTS fresh_engine
       (Some no_hints) world_down)) = None \<and>
   vramTotalMB (fst (selectModel sample_arith DEFAULTS fresh_engine
       (Some no_hints) world_down)) = None"
  by (simp add: model_defs sample_defs Let_def)

text \<open>A primary decision after a refresh carries the three refreshed readings.\<close>

theorem selectModel_gpu_readings_witness:
  "source (fst (selectModel sample_arith DEFAULTS fresh_engine (Some complex_hints) world_up))
     = Primary \<and>
   gpuUtilization_d (fst (selectModel sample_arith DEFAULTS fresh_engine
     (Some complex_hints) world_up)) = Some (Finite 40) \<and>
   vramUsedMB (fst (selectModel sample_arith DEFAULTS fresh_engine
     (Some complex_hints) world_up)) = Some (Finite 4096) \<and>
   vramTotalMB (fst (selectModel sample_arith DEFAULTS fresh_engine
     (Some complex_hints) world_up)) = Some (Finite 8192)"
proof -
  have f: "forced (Some complex_hints) = None"
    by (simp add: forced_def complex_hints_def)
  have a: "stale sample_arith DEFAULTS fresh_engine world_up"
    "nvidiaUtilization (observed world_up) = Some (Finite 40)"
    "nvidiaVram (observed world_up) = Some \<lparr> usedMB = Finite 4096, totalMB = Finite 8192 \<rparr>"
    by (simp_all add: model_defs sample_defs)
  have s: "source (fst (selectModel sample_arith DEFAULTS fresh_engine (Some complex_hints) world_up))
     = Primary"
    by (simp add: model_defs sample_defs Let_def)
  from selectModel_gpu_readings [OF surjective_pairing, of sample_arith DEFAULTS
      fresh_engine "Some complex_hints" world_up]
  show ?thesis
    by (simp add: f a s)
qed

section \<open>Routing engine: the model identifier of a decision\<close>

text \<open>
  Claim C10.  The model of a decision that is not forced is the configured primary or
  sidecar model behind the prefix \<^verbatim>\<open>ollama/\<close> when the source is primary or sidecar, and
  the configured fallback model as it is, or \<^verbatim>\<open>anthropic/claude-sonnet-4-5\<close> when none is
  configured, when the source is fallback.  The model of a forced decision is the caller's
  string as it is.  A configured model and its prefixed form are different strings, so
  forcing a configured model and being routed to it give different identifiers.
\<close>

theorem selectModel_model_prefix:
  "selectModel ar cfg e context w = (d, e') \<Longrightarrow>
     (case forced context of
        Some fm \<Rightarrow> model d = fm
      | None \<Rightarrow>
          model d =
            (case source d of
               Primary \<Rightarrow> ''ollama/'' @ primaryModel cfg
             | Sidecar \<Rightarrow> ''ollama/'' @ sidecarModel cfg
             | Fallback \<Rightarrow>
                 (case fallbackModel cfg of
                    None \<Rightarrow> ''anthropic/claude-sonnet-4-5''
                  | Some m \<Rightarrow> m))) \<and>
     ''ollama/'' @ primaryModel cfg \<noteq> primaryModel cfg \<and>
     ''ollama/'' @ sidecarModel cfg \<noteq> sidecarModel cfg"
proof (cases "forced context")
  case (Some fm)
  assume "selectModel ar cfg e context w = (d, e')"
  with Some show ?thesis
    by (auto simp: selectModel_forced_eq Let_def)
next
  case None
  assume sel: "selectModel ar cfg e context w = (d, e')"
  from None sel show ?thesis
  proof (cases rule: selectModel_unforced_cases)
    case (1 why)
    from decidePrimary_fields [OF 1] None show ?thesis by simp
  next
    case (2 why)
    from decideSidecar_fields [OF 2] None show ?thesis by simp
  next
    case (3 why)
    from decideFallback_fields [OF 3] None show ?thesis by simp
  qed
qed

text \<open>The default primary model routed and forced, and the default fallback.\<close>

theorem selectModel_model_prefix_witness:
  "model (fst (selectModel sample_arith DEFAULTS fresh_engine (Some complex_hints) world_up))
     = ''ollama/deepseek-coder-v2:16b'' \<and>
   model (fst (selectModel sample_arith DEFAULTS fresh_engine
     (Some (complex_hints\<lparr> forceModel := Some ''deepseek-coder-v2:16b'' \<rparr>)) world_up))
     = ''deepseek-coder-v2:16b'' \<and>
   model (fst (selectModel sample_arith DEFAULTS fresh_engine (Some complex_hints) world_down))
     = ''anthropic/claude-sonnet-4-5''"
proof -
  have f: "forced (Some complex_hints) = None"
    "forced (Some (complex_hints\<lparr> forceModel := Some ''deepseek-coder-v2:16b'' \<rparr>))
       = Some ''deepseek-coder-v2:16b''"
    by (simp_all add: forced_def complex_hints_def)
  have s: "source (fst (selectModel sample_arith DEFAULTS fresh_engine (Some complex_hints) world_up))
     = Primary"
    "source (fst (selectModel sample_arith DEFAULTS fresh_engine (Some complex_hints) world_down))
     = Fallback"
    by (simp_all add: model_defs sample_defs Let_def)
  have c: "primaryModel DEFAULTS = ''deepseek-coder-v2:16b''" "fallbackModel DEFAULTS = None"
    by (simp_all add: DEFAULTS_def)
  from selectModel_model_prefix [OF surjective_pairing, of sample_arith DEFAULTS
      fresh_engine "Some complex_hints" world_up]
    selectModel_model_prefix [OF surjective_pairing, of sample_arith DEFAULTS
      fresh_engine "Some (complex_hints\<lparr> forceModel := Some ''deepseek-coder-v2:16b'' \<rparr>)" world_up]
    selectModel_model_prefix [OF surjective_pairing, of sample_arith DEFAULTS
      fresh_engine "Some complex_hints" world_down]
  show ?thesis
    by (simp add: f s c)
qed

section \<open>Routing engine: the counter invariant\<close>

text \<open>
  Claim C7.  The engine that the constructor builds has all four counters at zero.  After
  any finite sequence of \<^verbatim>\<open>selectModel\<close> calls, with any hints and forced or not, and
  \<^verbatim>\<open>refreshHealth\<close> calls, \<^verbatim>\<open>decisionsCount\<close> is the sum of the three selection counters;
  and no counter is lower after a longer sequence than after any of its prefixes.
\<close>

theorem counters_invariant:
  "counters_sum (state (run ar cfg (new_engine cfg h) ops)) \<and>
   decisionsCount (state (new_engine cfg h)) = 0 \<and>
   primarySelections (state (new_engine cfg h)) = 0 \<and>
   sidecarSelections (state (new_engine cfg h)) = 0 \<and>
   fallbackSelections (state (new_engine cfg h)) = 0 \<and>
   counters_le (state (run ar cfg (new_engine cfg h) ops))
     (state (run ar cfg (new_engine cfg h) (ops @ later)))"
proof -
  have "counters_sum (state (new_engine cfg h))"
    by (simp add: counters_sum_def new_engine_def new_state_def)
  then have "counters_sum (state (run ar cfg (new_engine cfg h) ops))"
    by (simp add: run_counters_sum)
  moreover have "counters_le (state (run ar cfg (new_engine cfg h) ops))
     (state (run ar cfg (new_engine cfg h) (ops @ later)))"
    by (simp add: run_append run_counters_le)
  ultimately show ?thesis
    by (simp add: new_engine_def new_state_def)
qed

text \<open>A routed call, a forced call, a refresh against a backend that is down, and a call
  without hints: two decisions are counted, one primary and one fallback.\<close>

theorem counters_invariant_witness:
  "decisionsCount (state (run sample_arith DEFAULTS (new_engine DEFAULTS new_health)
     [Select (Some complex_hints) world_up,
      Select (Some (no_hints\<lparr> forceModel := Some ''llama3:8b'' \<rparr>)) world_up,
      Refresh probe_down,
      Select None world_down])) = 2 \<and>
   primarySelections (state (run sample_arith DEFAULTS (new_engine DEFAULTS new_health)
     [Select (Some complex_hints) world_up,
      Select (Some (no_hints\<lparr> forceModel := Some ''llama3:8b'' \<rparr>)) world_up,
      Refresh probe_down,
      Select None world_down])) = 1 \<and>
   sidecarSelections (state (run sample_arith DEFAULTS (new_engine DEFAULTS new_health)
     [Select (Some complex_hints) world_up,
      Select (Some (no_hints\<lparr> forceModel := Some ''llama3:8b'' \<rparr>)) world_up,
      Refresh probe_down,
      Select None world_down])) = 0 \<and>
   fallbackSelections (state (run sample_arith DEFAULTS (new_engine DEFAULTS new_health)
     [Select (Some complex_hints) world_up,
      Select (Some (no_hints\<lparr> forceModel := Some ''llama3:8b'' \<rparr>)) world_up,
      Refresh probe_down,
      Select None world_down])) = 1"
proof -
  have p: "primarySelections (state (run sample_arith DEFAULTS (new_engine DEFAULTS new_health)
     [Select (Some complex_hints) world_up,
      Select (Some (no_hints\<lparr> forceModel := Some ''llama3:8b'' \<rparr>)) world_up,
      Refresh probe_down,
      Select None world_down])) = 1"
    by (simp add: run_def model_defs sample_defs Let_def)
  have s: "sidecarSelections (state (run sample_arith DEFAULTS (new_engine DEFAULTS new_health)
     [Select (Some complex_hints) world_up,
      Select (Some (no_hints\<lparr> forceModel := Some ''llama3:8b'' \<rparr>)) world_up,
      Refresh probe_down,
      Select None world_down])) = 0"
    by (simp add: run_def model_defs sample_defs Let_def)
  have f: "fallbackSelections (state (run sample_arith DEFAULTS (new_engine DEFAULTS new_health)
     [Select (Some complex_hints) world_up,
      Select (Some (no_hints\<lparr> forceModel := Some ''llama3:8b'' \<rparr>)) world_up,
      Refresh probe_down,
      Select None world_down])) = 1"
    by (simp add: run_def model_defs sample_defs Let_def)
  from counters_invariant [of sample_arith DEFAULTS new_health
     "[Select (Some complex_hints) world_up,
      Select (Some (no_hints\<lparr> forceModel := Some ''llama3:8b'' \<rparr>)) world_up,
      Refresh probe_down,
      Select None world_down]" "[]"] p s f
  show ?thesis
    by (simp add: counters_sum_def)
qed

section \<open>Routing engine: the order of the policy branches\<close>

text \<open>
  Claim C1.  Take a call without a forced model, let \<open>e1\<close> be the engine that the staleness
  guard leaves, and let the backend be reachable in it.  Then exactly one of the seven
  branches a to g fires, a branch firing when its condition holds and the condition of no
  earlier branch does, and the source and the reason of the returned decision are those
  of the branch that fires.
\<close>

theorem selectModel_first_match:
  "forced hs = None \<Longrightarrow>
   e1 = (if stale ar cfg e w then refreshHealth cfg e (observed w) else e) \<Longrightarrow>
   ollamaReachable (state e1) \<Longrightarrow>
     (\<exists>!b. fires ar cfg (state e1) hs b) \<and>
     (\<forall>b. fires ar cfg (state e1) hs b \<longrightarrow>
        source (fst (selectModel ar cfg e hs w)) = branch_source b \<and>
        reason (fst (selectModel ar cfg e hs w)) = branch_reason ar cfg (state e1) b)"
  using fires_exists [where ar = ar and cfg = cfg and st = "state e1" and hs = hs]
    fires_unique [where ar = ar and cfg = cfg and st = "state e1" and hs = hs]
    selectModel_fired [where ar = ar and cfg = cfg and e = e and w = w and hs = hs and ?e1.0 = e1]
  by blast

text \<open>Both models pulled, none loaded, the GPU at half its memory and a request without
  complexity hints: branch c fires, and branch e, whose condition holds as well, does
  not.\<close>

theorem selectModel_first_match_witness:
  "fires sample_arith DEFAULTS (state cold_engine) (Some no_hints) B6c \<and>
   \<not> fires sample_arith DEFAULTS (state cold_engine) (Some no_hints) B6e \<and>
   source (fst (selectModel sample_arith DEFAULTS cold_engine (Some no_hints) world_up))
     = Sidecar \<and>
   reason (fst (selectModel sample_arith DEFAULTS cold_engine (Some no_hints) world_up))
     = ''Simple request routed to fast CPU sidecar''"
proof -
  have f: "forced (Some no_hints) = None"
    by (simp add: forced_def no_hints_def)
  have e: "cold_engine = (if stale sample_arith DEFAULTS cold_engine world_up
      then refreshHealth DEFAULTS cold_engine (observed world_up) else cold_engine)"
    by (simp add: model_defs sample_defs Let_def)
  have r: "ollamaReachable (state cold_engine)"
    by (simp add: model_defs sample_defs Let_def)
  have c: "fires sample_arith DEFAULTS (state cold_engine) (Some no_hints) B6c"
    "\<not> fires sample_arith DEFAULTS (state cold_engine) (Some no_hints) B6e"
    "\<not> isGpuOverloaded sample_arith DEFAULTS (state cold_engine)"
    by (simp_all add: fires_unfold model_defs sample_defs Let_def)
  from selectModel_first_match [OF f e r] c
  show ?thesis
    by auto
qed

end
